theory Spec2Isabelle
  imports Complex_Main
begin

section \<open>Lampung Digital Resilience Monitor: status classification and the background data store\<close>

text \<open>
  A shallow embedding of the Python sources
  \<^verbatim>\<open>utils/mock_data.py\<close>, \<^verbatim>\<open>modules/disaster_correlation.py\<close>,
  \<^verbatim>\<open>modules/social_signal.py\<close>, \<^verbatim>\<open>modules/infra_probing.py\<close>,
  \<^verbatim>\<open>modules/data_store.py\<close> and of \<^verbatim>\<open>compute_kecamatan_status\<close> in
  \<^verbatim>\<open>app.py\<close>.

  Conventions.
  \<^item> A Python \<^verbatim>\<open>float\<close> is a \<open>real\<close>: arithmetic is exact, the rounding error of
    binary floating point is not part of the model. \<^verbatim>\<open>round(x, n)\<close> is rounding of the
    exact value to \<open>n\<close> decimals, halves to the even neighbour.
  \<^item> A \<^verbatim>\<open>dict\<close> keyed by region name is a map \<open>string \<rightharpoonup> 'v\<close>; \<^verbatim>\<open>d.get(k, dflt)\<close>
    is a case distinction on \<open>d k\<close>. A dictionary that the code iterates over
    (\<^verbatim>\<open>KECAMATAN_DB\<close>) is an association list in the order of the source.
  \<^item> The string constants of the source (\<^verbatim>\<open>"HIGH"\<close>, \<^verbatim>\<open>"CRITICAL"\<close>, ...) stay strings.
  \<^item> A leading underscore of a Python name is dropped (\<^verbatim>\<open>_risk_level\<close> is \<open>risk_level\<close>,
    \<^verbatim>\<open>_do_fetch\<close> is \<open>do_fetch\<close>).
\<close>

subsection \<open>Python helpers\<close>

definition py_round :: "real \<Rightarrow> nat \<Rightarrow> real" where
  "py_round x ndigits =
     (let y = x * 10 ^ ndigits;
          f = \<lfloor>y\<rfloor>;
          d = y - of_int f;
          n = (if d < 1 / 2 then f else if 1 / 2 < d then f + 1
               else if even f then f else f + 1)
      in of_int n / 10 ^ ndigits)"

definition radians :: "real \<Rightarrow> real" where
  "radians d = d * pi / 180"

text \<open>\<^verbatim>\<open>math.atan2(y, x)\<close>: the angle of the point \<open>(x, y)\<close>, in \<open>(-\<pi>, \<pi>]\<close>.\<close>

definition atan2 :: "real \<Rightarrow> real \<Rightarrow> real" where
  "atan2 y x =
     (if 0 < x then arctan (y / x)
      else if x < 0 then (if 0 \<le> y then arctan (y / x) + pi else arctan (y / x) - pi)
      else if 0 < y then pi / 2
      else if y < 0 then - (pi / 2)
      else 0)"

subsection \<open>\<^verbatim>\<open>utils/mock_data.py\<close>: the region database\<close>

record kecamatan_info =
  kabupaten :: string
  lat :: real
  lon :: real

definition KECAMATAN_DB :: "(string \<times> kecamatan_info) list" where
  "KECAMATAN_DB = [
    (''Tanjung Karang Pusat'', \<lparr>kabupaten = ''Bandar Lampung'', lat = - 5.4175, lon = 105.2621\<rparr>),
    (''Tanjung Karang Barat'', \<lparr>kabupaten = ''Bandar Lampung'', lat = - 5.4200, lon = 105.2400\<rparr>),
    (''Tanjung Karang Timur'', \<lparr>kabupaten = ''Bandar Lampung'', lat = - 5.4150, lon = 105.2750\<rparr>),
    (''Teluk Betung Utara'', \<lparr>kabupaten = ''Bandar Lampung'', lat = - 5.4294, lon = 105.2618\<rparr>),
    (''Teluk Betung Barat'', \<lparr>kabupaten = ''Bandar Lampung'', lat = - 5.4500, lon = 105.2400\<rparr>),
    (''Teluk Betung Selatan'', \<lparr>kabupaten = ''Bandar Lampung'', lat = - 5.4600, lon = 105.2550\<rparr>),
    (''Kedaton'', \<lparr>kabupaten = ''Bandar Lampung'', lat = - 5.3950, lon = 105.2500\<rparr>),
    (''Sukarame'', \<lparr>kabupaten = ''Bandar Lampung'', lat = - 5.3836, lon = 105.2717\<rparr>),
    (''Way Halim'', \<lparr>kabupaten = ''Bandar Lampung'', lat = - 5.3900, lon = 105.2850\<rparr>),
    (''Rajabasa'', \<lparr>kabupaten = ''Bandar Lampung'', lat = - 5.3648, lon = 105.2436\<rparr>),
    (''Kemiling'', \<lparr>kabupaten = ''Bandar Lampung'', lat = - 5.3800, lon = 105.2200\<rparr>),
    (''Langkapura'', \<lparr>kabupaten = ''Bandar Lampung'', lat = - 5.3700, lon = 105.2350\<rparr>),
    (''Enggal'', \<lparr>kabupaten = ''Bandar Lampung'', lat = - 5.4260, lon = 105.2580\<rparr>),
    (''Kedamaian'', \<lparr>kabupaten = ''Bandar Lampung'', lat = - 5.4100, lon = 105.2700\<rparr>),
    (''Labuhan Ratu'', \<lparr>kabupaten = ''Bandar Lampung'', lat = - 5.3750, lon = 105.2650\<rparr>),
    (''Sukabumi'', \<lparr>kabupaten = ''Bandar Lampung'', lat = - 5.4050, lon = 105.2900\<rparr>),
    (''Tanjung Senang'', \<lparr>kabupaten = ''Bandar Lampung'', lat = - 5.3700, lon = 105.2950\<rparr>),
    (''Way Kandis'', \<lparr>kabupaten = ''Bandar Lampung'', lat = - 5.3600, lon = 105.2550\<rparr>),
    (''Metro Pusat'', \<lparr>kabupaten = ''Metro'', lat = - 5.1140, lon = 105.3060\<rparr>),
    (''Metro Timur'', \<lparr>kabupaten = ''Metro'', lat = - 5.1100, lon = 105.3200\<rparr>),
    (''Metro Barat'', \<lparr>kabupaten = ''Metro'', lat = - 5.1180, lon = 105.2900\<rparr>),
    (''Kalianda'', \<lparr>kabupaten = ''Lampung Selatan'', lat = - 5.7230, lon = 105.6170\<rparr>),
    (''Natar'', \<lparr>kabupaten = ''Lampung Selatan'', lat = - 5.3100, lon = 105.2800\<rparr>),
    (''Jati Agung'', \<lparr>kabupaten = ''Lampung Selatan'', lat = - 5.3300, lon = 105.3000\<rparr>),
    (''Tanjung Bintang'', \<lparr>kabupaten = ''Lampung Selatan'', lat = - 5.3500, lon = 105.3600\<rparr>),
    (''Sidomulyo'', \<lparr>kabupaten = ''Lampung Selatan'', lat = - 5.5500, lon = 105.5500\<rparr>),
    (''Bakauheni'', \<lparr>kabupaten = ''Lampung Selatan'', lat = - 5.8700, lon = 105.7500\<rparr>),
    (''Pringsewu'', \<lparr>kabupaten = ''Pringsewu'', lat = - 5.3580, lon = 104.9830\<rparr>),
    (''Gunung Sugih'', \<lparr>kabupaten = ''Lampung Tengah'', lat = - 4.8800, lon = 105.2700\<rparr>),
    (''Terbanggi Besar'', \<lparr>kabupaten = ''Lampung Tengah'', lat = - 4.8400, lon = 105.2900\<rparr>),
    (''Kotabumi'', \<lparr>kabupaten = ''Lampung Utara'', lat = - 4.8300, lon = 104.8900\<rparr>),
    (''Sukadana'', \<lparr>kabupaten = ''Lampung Timur'', lat = - 5.3900, lon = 105.5100\<rparr>),
    (''Gedong Tataan'', \<lparr>kabupaten = ''Pesawaran'', lat = - 5.3900, lon = 105.0800\<rparr>),
    (''Kota Agung'', \<lparr>kabupaten = ''Tanggamus'', lat = - 5.4900, lon = 104.6300\<rparr>),
    (''Liwa'', \<lparr>kabupaten = ''Lampung Barat'', lat = - 5.0500, lon = 104.0700\<rparr>),
    (''Blambangan Umpu'', \<lparr>kabupaten = ''Way Kanan'', lat = - 4.6500, lon = 104.5500\<rparr>),
    (''Menggala'', \<lparr>kabupaten = ''Tulang Bawang'', lat = - 4.5400, lon = 105.2400\<rparr>),
    (''Tulang Bawang Tengah'', \<lparr>kabupaten = ''Tulang Bawang Barat'', lat = - 4.4500, lon = 105.0500\<rparr>)  ]"

subsection \<open>\<^verbatim>\<open>modules/disaster_correlation.py\<close>\<close>

text \<open>
  An earthquake record of \<^verbatim>\<open>bmkg_client\<close> with the fields this module reads, and a weather
  warning. \<^verbatim>\<open>warning.get("affected_kecamatan", [])\<close> allows the key to be missing, so the
  field is optional.
\<close>

record earthquake =
  magnitude :: real
  latitude :: real
  longitude :: real

record weather_warning =
  level :: string
  warning_type :: string
  affected_kecamatan :: "string list option"

record disaster_feed =
  earthquakes :: "earthquake list"
  weather_warnings :: "weather_warning list"

text \<open>
  A cause is the text \<^verbatim>\<open>f"Gempa {mag} SR"\<close> of an earthquake or the \<^verbatim>\<open>type\<close> of a weather
  warning; the formatting of the magnitude is left symbolic.
\<close>

datatype cause = Gempa real | Cuaca string

record eq_entry =
  eq_risk :: string
  eq_cause :: cause
  distance_km :: real
  earthquake_detail :: earthquake

record weather_entry =
  w_risk :: string
  w_cause :: cause
  warning_detail :: weather_warning

record risk_entry =
  risk :: string
  causes :: "cause list"
  eq_detail :: "eq_entry option"
  weather_detail :: "weather_entry option"

record disaster_result =
  risk_map :: "string \<rightharpoonup> risk_entry"
  metadata :: disaster_feed

text \<open>
  The great-circle distance in kilometres. \<^verbatim>\<open>math.sqrt\<close> raises on a negative argument;
  \<open>sqrt\<close> is total here, and for latitudes between \<open>-90\<close> and \<open>90\<close> degrees both
  arguments lie between 0 and 1 in exact arithmetic.
\<close>

definition haversine_distance :: "real \<Rightarrow> real \<Rightarrow> real \<Rightarrow> real \<Rightarrow> real" where
  "haversine_distance lat1 lon1 lat2 lon2 =
     (let R = 6371;
          dlat = radians (lat2 - lat1);
          dlon = radians (lon2 - lon1);
          a = (sin (dlat / 2)) ^ 2
              + cos (radians lat1) * cos (radians lat2) * (sin (dlon / 2)) ^ 2;
          c = 2 * atan2 (sqrt a) (sqrt (1 - a))
      in R * c)"

text \<open>\<^verbatim>\<open>{"HIGH": 3, "MEDIUM": 2, "LOW": 1}.get(risk_str, 0)\<close>\<close>

definition risk_level :: "string \<Rightarrow> nat" where
  "risk_level risk_str =
     (if risk_str = ''HIGH'' then 3
      else if risk_str = ''MEDIUM'' then 2
      else if risk_str = ''LOW'' then 1
      else 0)"

text \<open>The radius and the risk that \<^verbatim>\<open>assess_earthquake_risk\<close> gives a magnitude.\<close>

definition magnitude_class :: "real \<Rightarrow> real \<times> string" where
  "magnitude_class mag =
     (if 5.0 \<le> mag then (100, ''HIGH'')
      else if 4.0 \<le> mag then (50, ''MEDIUM'')
      else (25, ''LOW''))"

text \<open>The body of the inner loop over \<^verbatim>\<open>KECAMATAN_DB.items()\<close>.\<close>

definition eq_visit ::
  "earthquake \<Rightarrow> (string \<rightharpoonup> eq_entry) \<Rightarrow> string \<times> kecamatan_info \<Rightarrow> (string \<rightharpoonup> eq_entry)" where
  "eq_visit eq affected item =
     (let kec = fst item; info = snd item;
          mag = magnitude eq;
          radius = fst (magnitude_class mag);
          r = snd (magnitude_class mag);
          dist = haversine_distance (latitude eq) (longitude eq) (lat info) (lon info)
      in if dist \<le> radius then
           (if (case affected kec of None \<Rightarrow> True
                | Some old \<Rightarrow> risk_level (eq_risk old) < risk_level r)
            then affected(kec \<mapsto>
                   \<lparr>eq_risk = r, eq_cause = Gempa mag,
                    distance_km = py_round dist 1, earthquake_detail = eq\<rparr>)
            else affected)
         else affected)"

definition assess_earthquake_risk :: "earthquake list \<Rightarrow> (string \<rightharpoonup> eq_entry)" where
  "assess_earthquake_risk eqs =
     foldl (\<lambda>affected eq. foldl (eq_visit eq) affected KECAMATAN_DB) Map.empty eqs"

text \<open>\<^verbatim>\<open>{"ALERT": "HIGH", "WARNING": "MEDIUM", "ADVISORY": "LOW"}.get(level, "LOW")\<close>\<close>

definition level_risk :: "string \<Rightarrow> string" where
  "level_risk lv =
     (if lv = ''ALERT'' then ''HIGH''
      else if lv = ''WARNING'' then ''MEDIUM''
      else if lv = ''ADVISORY'' then ''LOW''
      else ''LOW'')"

definition weather_visit ::
  "weather_warning \<Rightarrow> (string \<rightharpoonup> weather_entry) \<Rightarrow> string \<Rightarrow> (string \<rightharpoonup> weather_entry)" where
  "weather_visit warning affected kec =
     (let r = level_risk (level warning)
      in if (case affected kec of None \<Rightarrow> True
             | Some old \<Rightarrow> risk_level (w_risk old) < risk_level r)
         then affected(kec \<mapsto>
                \<lparr>w_risk = r, w_cause = Cuaca (warning_type warning), warning_detail = warning\<rparr>)
         else affected)"

definition assess_weather_risk :: "weather_warning list \<Rightarrow> (string \<rightharpoonup> weather_entry)" where
  "assess_weather_risk warnings =
     foldl (\<lambda>affected warning.
              foldl (weather_visit warning) affected
                (case affected_kecamatan warning of None \<Rightarrow> [] | Some ks \<Rightarrow> ks))
       Map.empty warnings"

text \<open>
  The body of the loop of \<^verbatim>\<open>get_combined_disaster_risk\<close> over \<^verbatim>\<open>all_kecamatan\<close>: it writes
  \<^verbatim>\<open>combined[kec]\<close> from \<^verbatim>\<open>eq_risk\<close> and \<^verbatim>\<open>weather_risk\<close> alone.
\<close>

definition combine_kecamatan ::
  "(string \<rightharpoonup> eq_entry) \<Rightarrow> (string \<rightharpoonup> weather_entry) \<Rightarrow> string \<Rightarrow> risk_entry" where
  "combine_kecamatan eqr wr kec =
     (let causes0 = [];
          max0 = ''LOW'';
          causes1 = (case eqr kec of None \<Rightarrow> causes0 | Some e \<Rightarrow> causes0 @ [eq_cause e]);
          max1 = (case eqr kec of None \<Rightarrow> max0
                  | Some e \<Rightarrow> if risk_level max0 < risk_level (eq_risk e) then eq_risk e else max0);
          causes2 = (case wr kec of None \<Rightarrow> causes1 | Some w \<Rightarrow> causes1 @ [w_cause w]);
          max2 = (case wr kec of None \<Rightarrow> max1
                  | Some w \<Rightarrow> if risk_level max1 < risk_level (w_risk w) then w_risk w else max1)
      in \<lparr>risk = max2, causes = causes2, eq_detail = eqr kec, weather_detail = wr kec\<rparr>)"

text \<open>
  \<^verbatim>\<open>get_combined_disaster_risk\<close>, as a function of what \<^verbatim>\<open>fetch_disaster_data()\<close> returned.
  \<^verbatim>\<open>all_kecamatan\<close> is the set of keys of the two maps, and the loop gives each of them its
  entry.
\<close>

definition get_combined_disaster_risk :: "disaster_feed \<Rightarrow> disaster_result" where
  "get_combined_disaster_risk data =
     (let eqr = assess_earthquake_risk (earthquakes data);
          wr = assess_weather_risk (weather_warnings data);
          all_kecamatan = dom eqr \<union> dom wr;
          combined = (\<lambda>kec. if kec \<in> all_kecamatan
                             then Some (combine_kecamatan eqr wr kec) else None)
      in \<lparr>risk_map = combined, metadata = data\<rparr>)"

subsection \<open>\<^verbatim>\<open>modules/social_signal.py\<close>: \<^verbatim>\<open>get_social_score\<close>\<close>





subsection \<open>\<^verbatim>\<open>modules/infra_probing.py\<close>: \<^verbatim>\<open>get_infra_score\<close>\<close>




subsection \<open>The fetched data\<close>

text \<open>
  The dictionary that \<^verbatim>\<open>load_all_data\<close> (\<^verbatim>\<open>app.py\<close>) and \<^verbatim>\<open>DataStore._do_fetch\<close> build, with
  its seven keys. The classifier reads \<^verbatim>\<open>social_scores\<close>, \<^verbatim>\<open>infra_scores\<close> and
  \<^verbatim>\<open>disaster_data\<close>; the other four values are carried along and stay of an arbitrary
  type \<open>'v\<close>.
\<close>

record 'v snapshot =
  social_signals :: 'v
  social_agg :: 'v
  social_scores :: "string \<rightharpoonup> real"
  disaster_data :: disaster_result
  probe_results :: 'v
  probe_agg :: 'v
  infra_scores :: "string \<rightharpoonup> real"

subsection \<open>\<^verbatim>\<open>app.py\<close>: \<^verbatim>\<open>compute_kecamatan_status\<close>\<close>

record kecamatan_status =
  status :: string
  color :: string
  combined_score :: real
  social_score :: real
  infra_score :: real
  disaster_risk :: string
  disaster_causes :: "cause list"

text \<open>\<^verbatim>\<open>scores.get(kec, 100)\<close>\<close>

definition get_score :: "(string \<rightharpoonup> real) \<Rightarrow> string \<Rightarrow> real" where
  "get_score scores kec = (case scores kec of None \<Rightarrow> 100 | Some v \<Rightarrow> v)"

text \<open>\<^verbatim>\<open>disaster_risk_map.get(kec, {}).get("risk", "NONE")\<close>\<close>

definition get_risk :: "(string \<rightharpoonup> risk_entry) \<Rightarrow> string \<Rightarrow> string" where
  "get_risk disaster_risk_map kec =
     (case disaster_risk_map kec of None \<Rightarrow> ''NONE'' | Some e \<Rightarrow> risk e)"

text \<open>\<^verbatim>\<open>disaster_risk_map.get(kec, {}).get("causes", [])\<close>\<close>

definition get_causes :: "(string \<rightharpoonup> risk_entry) \<Rightarrow> string \<Rightarrow> cause list" where
  "get_causes disaster_risk_map kec =
     (case disaster_risk_map kec of None \<Rightarrow> [] | Some e \<Rightarrow> causes e)"

text \<open>The weighted score, as the source writes it.\<close>

definition combined_of :: "real \<Rightarrow> real \<Rightarrow> string \<Rightarrow> real" where
  "combined_of social infra drisk =
     (social * 0.4) + (infra * 0.4)
     + (if drisk = ''HIGH'' then 0 else if drisk = ''MEDIUM'' then 50 else 100) * 0.2"

text \<open>The body of the loop \<^verbatim>\<open>for kec in KECAMATAN_DB\<close>.\<close>

definition kecamatan_entry :: "'v snapshot \<Rightarrow> string \<Rightarrow> kecamatan_status" where
  "kecamatan_entry data kec =
     (let disaster_risk_map = risk_map (disaster_data data);
          social = get_score (social_scores data) kec;
          infra = get_score (infra_scores data) kec;
          has_disaster = (kec \<in> dom disaster_risk_map);
          drisk = get_risk disaster_risk_map kec;
          combined = combined_of social infra drisk;
          verdict =
            (if combined < 30 \<or> (social < 40 \<and> (has_disaster \<or> infra < 50))
             then (''CRITICAL'', ''#eb3349'')
             else if combined < 60 \<or> social < 60 \<or> infra < 60
             then (''WARNING'', ''#F2994A'')
             else (''NORMAL'', ''#38ef7d''))
      in \<lparr>status = fst verdict, color = snd verdict,
          combined_score = py_round combined 1,
          social_score = social, infra_score = infra,
          disaster_risk = drisk,
          disaster_causes = get_causes disaster_risk_map kec\<rparr>)"

definition compute_kecamatan_status :: "'v snapshot \<Rightarrow> (string \<rightharpoonup> kecamatan_status)" where
  "compute_kecamatan_status data =
     foldl (\<lambda>statuses kec. statuses(kec \<mapsto> kecamatan_entry data kec))
       Map.empty (map fst KECAMATAN_DB)"




subsection \<open>\<^verbatim>\<open>modules/data_store.py\<close>: the \<^verbatim>\<open>DataStore\<close>\<close>

text \<open>
  An exception caught by \<^verbatim>\<open>except Exception as e\<close>, with the text \<^verbatim>\<open>str(e)\<close>. A call either
  raises (\<open>Inl\<close>) or returns (\<open>Inr\<close>). Exceptions outside \<^verbatim>\<open>Exception\<close>
  (\<^verbatim>\<open>KeyboardInterrupt\<close>, \<^verbatim>\<open>SystemExit\<close>) are not modelled.
\<close>

datatype py_exception = Exception (str: string)

text \<open>
  A \<^verbatim>\<open>datetime\<close> is a number of microseconds on the UTC time line and
  \<^verbatim>\<open>timedelta(seconds=n)\<close> is \<open>n\<close> seconds in that unit; the range limit of \<^verbatim>\<open>datetime\<close>
  (year 9999) is not modelled.
\<close>

type_synonym datetime = int

definition timedelta :: "int \<Rightarrow> int" where
  "timedelta seconds = seconds * 1000000"

text \<open>
  What the calls of one fetch cycle do: the outcome of each of the seven calls of the
  \<^verbatim>\<open>try\<close> block (the three that fetch take no argument, the four that derive take the
  value derived from), and the clock read by \<^verbatim>\<open>datetime.now(timezone.utc)\<close>.
\<close>

record 'v producers =
  call_fetch_social_signals :: "py_exception + 'v"
  call_aggregate_by_kecamatan :: "'v \<Rightarrow> py_exception + 'v"
  call_get_social_score :: "'v \<Rightarrow> py_exception + (string \<rightharpoonup> real)"
  call_get_combined_disaster_risk :: "py_exception + disaster_result"
  call_probe_anchors :: "py_exception + 'v"
  call_aggregate_probe_by_kecamatan :: "'v \<Rightarrow> py_exception + 'v"
  call_get_infra_score :: "'v \<Rightarrow> py_exception + (string \<rightharpoonup> real)"
  utc_now :: datetime

text \<open>The attributes of the store that \<^verbatim>\<open>__init__\<close> sets (the lock and the thread apart).\<close>

record 'v store =
  refresh_interval :: int
  data :: "'v snapshot option"
  stop_event :: bool
  is_fetching :: bool
  last_refresh :: "datetime option"
  next_refresh :: "datetime option"
  fetch_count :: nat
  last_error :: "string option"

text \<open>What an operation does besides changing the store.\<close>

datatype effect = StartThread string | LogWarning string

text \<open>Sequencing of calls that may raise: the first exception ends the block.\<close>

definition and_then :: "py_exception + 'a \<Rightarrow> ('a \<Rightarrow> py_exception + 'b) \<Rightarrow> py_exception + 'b" where
  "and_then r k = (case r of Inl e \<Rightarrow> Inl e | Inr v \<Rightarrow> k v)"

text \<open>
  The calls of the \<^verbatim>\<open>try\<close> block up to the construction of \<^verbatim>\<open>new_data\<close>, in the order of
  the source.
\<close>

definition build_new_data :: "'v producers \<Rightarrow> py_exception + 'v snapshot" where
  "build_new_data p =
     and_then (call_fetch_social_signals p) (\<lambda>signals.
     and_then (call_aggregate_by_kecamatan p signals) (\<lambda>sagg.
     and_then (call_get_social_score p sagg) (\<lambda>sscores.
     and_then (call_get_combined_disaster_risk p) (\<lambda>ddata.
     and_then (call_probe_anchors p) (\<lambda>presults.
     and_then (call_aggregate_probe_by_kecamatan p presults) (\<lambda>pagg.
     and_then (call_get_infra_score p pagg) (\<lambda>iscores.
       Inr \<lparr>social_signals = signals, social_agg = sagg, social_scores = sscores,
            disaster_data = ddata, probe_results = presults, probe_agg = pagg,
            infra_scores = iscores\<rparr>)))))))"

text \<open>The block under \<^verbatim>\<open>with self._data_lock\<close> in \<^verbatim>\<open>_do_fetch\<close>.\<close>

definition publish :: "'v snapshot \<Rightarrow> datetime \<Rightarrow> 'v store \<Rightarrow> 'v store" where
  "publish new_data now s =
     (let s1 = s\<lparr>data := Some new_data\<rparr>;
          s2 = s1\<lparr>last_refresh := Some now\<rparr>;
          s3 = s2\<lparr>next_refresh := Some (now + timedelta (refresh_interval s2))\<rparr>;
          s4 = s3\<lparr>fetch_count := fetch_count s3 + 1\<rparr>
      in s4\<lparr>last_error := None\<rparr>)"

definition try_block :: "'v producers \<Rightarrow> 'v store \<Rightarrow> py_exception + 'v store" where
  "try_block p s =
     and_then (build_new_data p) (\<lambda>new_data. Inr (publish new_data (utc_now p) s))"

text \<open>
  \<^verbatim>\<open>_do_fetch\<close> in two parts: \<open>fetch_start\<close> sets the flag; \<open>fetch_finish\<close> is the
  \<^verbatim>\<open>try\<close> block with its \<^verbatim>\<open>except Exception\<close> and \<^verbatim>\<open>finally\<close> clauses. Other threads may
  observe the store between the two.
\<close>

definition fetch_start :: "'v store \<Rightarrow> 'v store" where
  "fetch_start s = s\<lparr>is_fetching := True\<rparr>"

definition fetch_finish :: "'v producers \<Rightarrow> 'v store \<Rightarrow> py_exception + 'v store" where
  "fetch_finish p s =
     (case try_block p s of
        Inr s' \<Rightarrow> Inr (s'\<lparr>is_fetching := False\<rparr>)
      | Inl (Exception msg) \<Rightarrow> Inr (s\<lparr>last_error := Some msg, is_fetching := False\<rparr>))"

definition do_fetch :: "'v producers \<Rightarrow> 'v store \<Rightarrow> py_exception + 'v store" where
  "do_fetch p s = fetch_finish p (fetch_start s)"

text \<open>
  \<^verbatim>\<open>__init__\<close> of the first construction: the attributes, then the first fetch, then the
  background thread.
\<close>

definition init_attributes :: "int \<Rightarrow> 'v store" where
  "init_attributes interval =
     \<lparr>refresh_interval = interval, data = None, stop_event = False, is_fetching = False,
      last_refresh = None, next_refresh = None, fetch_count = 0, last_error = None\<rparr>"


definition DEFAULT_REFRESH_INTERVAL :: int where
  "DEFAULT_REFRESH_INTERVAL = 300"

text \<open>\<^verbatim>\<open>get_data\<close>: the value returned, the effects, the store after the call.\<close>

definition get_data :: "'v store \<Rightarrow> 'v snapshot option \<times> effect list \<times> 'v store" where
  "get_data s = (data s, [], s)"

text \<open>
  \<^verbatim>\<open>get_status\<close>: the values of the keys \<^verbatim>\<open>last_refresh\<close>, \<^verbatim>\<open>next_refresh\<close>, \<^verbatim>\<open>is_fetching\<close>,
  \<^verbatim>\<open>fetch_count\<close>, \<^verbatim>\<open>refresh_interval\<close> and \<^verbatim>\<open>last_error\<close> of the dictionary returned.
\<close>

definition get_status ::
  "'v store \<Rightarrow> (datetime option \<times> datetime option \<times> bool \<times> nat \<times> int \<times> string option) \<times> 'v store" where
  "get_status s =
     ((last_refresh s, next_refresh s, is_fetching s, fetch_count s, refresh_interval s,
       last_error s), s)"

definition set_refresh_interval :: "'v store \<Rightarrow> int \<Rightarrow> 'v store" where
  "set_refresh_interval s seconds = s\<lparr>refresh_interval := max 60 seconds\<rparr>"

text \<open>
  \<^verbatim>\<open>force_refresh\<close> returns \<^verbatim>\<open>None\<close> on both paths; what differs is the effect: a logged
  warning, or a started thread whose target is \<^verbatim>\<open>_do_fetch\<close>.
\<close>

definition force_refresh :: "'v store \<Rightarrow> py_exception + (effect list \<times> 'v store)" where
  "force_refresh s =
     (if is_fetching s
      then Inr ([LogWarning ''DataStore: Fetch already in progress, skipping force refresh.''], s)
      else Inr ([StartThread ''DataStore-ForceRefresh''], s))"

definition stop :: "'v store \<Rightarrow> 'v store" where
  "stop s = s\<lparr>stop_event := True\<rparr>"

text \<open>
  The life of a store as a sequence of events: the operations that clients call, and the
  two parts of each \<^verbatim>\<open>_do_fetch\<close> that a fetching thread runs (with the outcome of its
  calls). The threads are those of \<^verbatim>\<open>_background_loop\<close>, which calls \<^verbatim>\<open>_do_fetch\<close> after each
  wait, and those that \<^verbatim>\<open>force_refresh\<close> starts. Any interleaving of them with the clients
  is a list of events; the lock makes the block that publishes one step.
\<close>

datatype 'v event =
    FetchStart
  | FetchFinish "'v producers"
  | GetData
  | GetStatus
  | SetRefreshInterval int
  | ForceRefresh
  | Stop

fun step :: "'v store \<Rightarrow> 'v event \<Rightarrow> 'v store" where
  "step s FetchStart = fetch_start s"
| "step s (FetchFinish p) = (case fetch_finish p s of Inr s' \<Rightarrow> s' | Inl e \<Rightarrow> s)"
| "step s GetData = snd (snd (get_data s))"
| "step s GetStatus = snd (get_status s)"
| "step s (SetRefreshInterval seconds) = set_refresh_interval s seconds"
| "step s ForceRefresh = (case force_refresh s of Inr r \<Rightarrow> snd r | Inl e \<Rightarrow> s)"
| "step s Stop = stop s"




subsection \<open>Invariants and example inputs\<close>

definition eq_risks_ok :: "(string \<rightharpoonup> eq_entry) \<Rightarrow> bool" where
  "eq_risks_ok m = (\<forall>k e. m k = Some e \<longrightarrow> eq_risk e \<in> {''LOW'', ''MEDIUM'', ''HIGH''})"

definition weather_risks_ok :: "(string \<rightharpoonup> weather_entry) \<Rightarrow> bool" where
  "weather_risks_ok m = (\<forall>k e. m k = Some e \<longrightarrow> w_risk e \<in> {''LOW'', ''MEDIUM'', ''HIGH''})"

definition example_feed :: disaster_feed where
  "example_feed =
     \<lparr>earthquakes = [],
      weather_warnings =
        [\<lparr>level = ''ALERT'', warning_type = ''Cuaca Ekstrem'',
          affected_kecamatan = Some [''Kedaton'']\<rparr>]\<rparr>"


definition empty_data :: "nat snapshot" where
  "empty_data =
     \<lparr>social_signals = 0, social_agg = 0, social_scores = Map.empty,
      disaster_data = \<lparr>risk_map = Map.empty, metadata = \<lparr>earthquakes = [], weather_warnings = []\<rparr>\<rparr>,
      probe_results = 0, probe_agg = 0, infra_scores = Map.empty\<rparr>"



text \<open>Outcomes of the calls of a cycle, for the examples: all calls return.\<close>

definition healthy_producers :: "nat producers" where
  "healthy_producers =
     \<lparr>call_fetch_social_signals = Inr 1,
      call_aggregate_by_kecamatan = (\<lambda>v. Inr (v + 1)),
      call_get_social_score = (\<lambda>v. Inr [''Kedaton'' \<mapsto> 35]),
      call_get_combined_disaster_risk = Inr (get_combined_disaster_risk example_feed),
      call_probe_anchors = Inr 3,
      call_aggregate_probe_by_kecamatan = (\<lambda>v. Inr (v + 1)),
      call_get_infra_score = (\<lambda>v. Inr [''Kedaton'' \<mapsto> 45]),
      utc_now = 1000000000\<rparr>"


text \<open>The first call raises.\<close>

definition social_down :: "nat producers" where
  "social_down = healthy_producers\<lparr>call_fetch_social_signals := Inl (Exception ''timed out'')\<rparr>"

text \<open>
  \<^verbatim>\<open>probe_anchors()\<close> raises (\<^verbatim>\<open>load_anchors\<close> does not find \<^verbatim>\<open>anchors.csv\<close>); the social
  and the disaster calls return.
\<close>

definition infra_down :: "nat producers" where
  "infra_down = healthy_producers\<lparr>call_probe_anchors := Inl (Exception ''No such file'')\<rparr>"

text \<open>The outcome of the three social calls and of the three infrastructure calls.\<close>

definition social_outcome :: "'v producers \<Rightarrow> py_exception + (string \<rightharpoonup> real)" where
  "social_outcome p =
     and_then (call_fetch_social_signals p) (\<lambda>signals.
     and_then (call_aggregate_by_kecamatan p signals) (\<lambda>sagg.
       call_get_social_score p sagg))"

definition infra_outcome :: "'v producers \<Rightarrow> py_exception + (string \<rightharpoonup> real)" where
  "infra_outcome p =
     and_then (call_probe_anchors p) (\<lambda>presults.
     and_then (call_aggregate_probe_by_kecamatan p presults) (\<lambda>pagg.
       call_get_infra_score p pagg))"

section \<open>The disaster risk map\<close>

lemma magnitude_class_risk: "snd (magnitude_class mag) \<in> {''LOW'', ''MEDIUM'', ''HIGH''}"
  by (simp add: magnitude_class_def)

lemma level_risk_cases: "level_risk lv \<in> {''LOW'', ''MEDIUM'', ''HIGH''}"
  by (simp add: level_risk_def)

lemma eq_visit_ok: "eq_risks_ok m \<Longrightarrow> eq_risks_ok (eq_visit eq m item)"
  using magnitude_class_risk [of "magnitude eq"]
  by (auto simp: eq_risks_ok_def eq_visit_def Let_def)

lemma eq_inner_ok: "eq_risks_ok m \<Longrightarrow> eq_risks_ok (foldl (eq_visit eq) m items)"
  by (induction items arbitrary: m) (simp_all add: eq_visit_ok)

lemma eq_outer_ok:
  "eq_risks_ok m \<Longrightarrow>
   eq_risks_ok (foldl (\<lambda>affected eq. foldl (eq_visit eq) affected KECAMATAN_DB) m eqs)"
  by (induction eqs arbitrary: m) (simp_all add: eq_inner_ok)

lemma assess_earthquake_risk_ok: "eq_risks_ok (assess_earthquake_risk eqs)"
  unfolding assess_earthquake_risk_def
  by (rule eq_outer_ok) (simp add: eq_risks_ok_def)

lemma weather_visit_ok: "weather_risks_ok m \<Longrightarrow> weather_risks_ok (weather_visit w m kec)"
  using level_risk_cases [of "level w"]
  by (auto simp: weather_risks_ok_def weather_visit_def Let_def)

lemma weather_inner_ok:
  "weather_risks_ok m \<Longrightarrow> weather_risks_ok (foldl (weather_visit w) m ks)"
  by (induction ks arbitrary: m) (simp_all add: weather_visit_ok)

lemma weather_outer_ok:
  "weather_risks_ok m \<Longrightarrow>
   weather_risks_ok
     (foldl (\<lambda>affected warning.
               foldl (weather_visit warning) affected
                 (case affected_kecamatan warning of None \<Rightarrow> [] | Some ks \<Rightarrow> ks)) m ws)"
  by (induction ws arbitrary: m) (simp_all add: weather_inner_ok)

lemma assess_weather_risk_ok: "weather_risks_ok (assess_weather_risk ws)"
  unfolding assess_weather_risk_def
  by (rule weather_outer_ok) (simp add: weather_risks_ok_def)

lemma combine_kecamatan_risk:
  assumes "eq_risks_ok eqr" and "weather_risks_ok wr"
  shows "risk (combine_kecamatan eqr wr kec) \<in> {''LOW'', ''MEDIUM'', ''HIGH''}"
proof -
  have e: "\<And>e. eqr kec = Some e \<Longrightarrow> eq_risk e \<in> {''LOW'', ''MEDIUM'', ''HIGH''}"
    using assms(1) by (simp add: eq_risks_ok_def)
  have w: "\<And>e. wr kec = Some e \<Longrightarrow> w_risk e \<in> {''LOW'', ''MEDIUM'', ''HIGH''}"
    using assms(2) by (simp add: weather_risks_ok_def)
  show ?thesis
    using e w by (auto simp: combine_kecamatan_def Let_def split: option.splits)
qed

lemma combine_kecamatan_causes:
  "kec \<in> dom eqr \<union> dom wr \<Longrightarrow> causes (combine_kecamatan eqr wr kec) \<noteq> []"
  by (auto simp: combine_kecamatan_def Let_def split: option.splits)

lemma risk_map_entry:
  "risk_map (get_combined_disaster_risk feed) kec = Some e \<Longrightarrow>
   risk e \<in> {''LOW'', ''MEDIUM'', ''HIGH''} \<and> causes e \<noteq> []"
  using combine_kecamatan_risk [OF assess_earthquake_risk_ok assess_weather_risk_ok,
      of "earthquakes feed" "weather_warnings feed" kec]
    combine_kecamatan_causes [of kec "assess_earthquake_risk (earthquakes feed)"
      "assess_weather_risk (weather_warnings feed)"]
  by (auto simp: get_combined_disaster_risk_def Let_def split: if_splits)

lemma get_risk_none_iff:
  "get_risk (risk_map (get_combined_disaster_risk feed)) kec = ''NONE''
   \<longleftrightarrow> kec \<notin> dom (risk_map (get_combined_disaster_risk feed))"
proof (cases "risk_map (get_combined_disaster_risk feed) kec")
  case None
  then show ?thesis by (simp add: get_risk_def domIff)
next
  case (Some e)
  with risk_map_entry [OF Some] show ?thesis by (auto simp: get_risk_def domIff)
qed

lemma example_feed_risk_map:
  "risk_map (get_combined_disaster_risk example_feed) =
     (\<lambda>kec. if kec = ''Kedaton''
        then Some \<lparr>risk = ''HIGH'', causes = [Cuaca ''Cuaca Ekstrem''], eq_detail = None,
               weather_detail = Some \<lparr>w_risk = ''HIGH'', w_cause = Cuaca ''Cuaca Ekstrem'',
                 warning_detail = \<lparr>level = ''ALERT'', warning_type = ''Cuaca Ekstrem'',
                   affected_kecamatan = Some [''Kedaton'']\<rparr>\<rparr>\<rparr>
        else None)"
  by (rule ext)
     (simp add: get_combined_disaster_risk_def example_feed_def assess_earthquake_risk_def
       assess_weather_risk_def weather_visit_def level_risk_def risk_level_def
       combine_kecamatan_def Let_def)

text \<open>
  Claim C10. Every entry of the \<^verbatim>\<open>risk_map\<close> that \<^verbatim>\<open>get_combined_disaster_risk\<close> builds has
  a risk among \<^verbatim>\<open>LOW\<close>, \<^verbatim>\<open>MEDIUM\<close> and \<^verbatim>\<open>HIGH\<close>, never \<^verbatim>\<open>NONE\<close>, and a non-empty list of
  causes. So the risk the classifier reads for a region is \<^verbatim>\<open>NONE\<close> exactly when the
  region is absent from the map, and its membership test \<^verbatim>\<open>kec in disaster_risk_map\<close> is
  the same condition as "a risk is present and is not \<^verbatim>\<open>NONE\<close>".
\<close>

theorem risk_map_never_none:
  "(\<forall>e. risk_map (get_combined_disaster_risk feed) kec = Some e \<longrightarrow>
        risk e \<in> {''LOW'', ''MEDIUM'', ''HIGH''} \<and> risk e \<noteq> ''NONE'' \<and> causes e \<noteq> [])
   \<and> (get_risk (risk_map (get_combined_disaster_risk feed)) kec = ''NONE''
        \<longleftrightarrow> kec \<notin> dom (risk_map (get_combined_disaster_risk feed)))
   \<and> (kec \<in> dom (risk_map (get_combined_disaster_risk feed))
        \<longleftrightarrow> (kec \<in> dom (risk_map (get_combined_disaster_risk feed))
             \<and> get_risk (risk_map (get_combined_disaster_risk feed)) kec \<noteq> ''NONE''))"
proof (intro conjI allI impI)
  fix e assume e: "risk_map (get_combined_disaster_risk feed) kec = Some e"
  from risk_map_entry [OF e]
  show "risk e \<in> {''LOW'', ''MEDIUM'', ''HIGH''}" and "causes e \<noteq> []" by simp_all
  then show "risk e \<noteq> ''NONE''" by auto
next
  show "get_risk (risk_map (get_combined_disaster_risk feed)) kec = ''NONE''
        \<longleftrightarrow> kec \<notin> dom (risk_map (get_combined_disaster_risk feed))"
    by (rule get_risk_none_iff)
  then show "kec \<in> dom (risk_map (get_combined_disaster_risk feed))
        \<longleftrightarrow> (kec \<in> dom (risk_map (get_combined_disaster_risk feed))
             \<and> get_risk (risk_map (get_combined_disaster_risk feed)) kec \<noteq> ''NONE'')"
    by blast
qed

theorem risk_map_never_none_witness:
  "risk_map (get_combined_disaster_risk example_feed) ''Kedaton'' \<noteq> None
   \<and> risk (the (risk_map (get_combined_disaster_risk example_feed) ''Kedaton'')) = ''HIGH''
   \<and> causes (the (risk_map (get_combined_disaster_risk example_feed) ''Kedaton''))
       = [Cuaca ''Cuaca Ekstrem'']
   \<and> get_risk (risk_map (get_combined_disaster_risk example_feed)) ''Natar'' = ''NONE''
   \<and> ''Natar'' \<notin> dom (risk_map (get_combined_disaster_risk example_feed))"
  using risk_map_never_none [of example_feed "''Kedaton''"]
    risk_map_never_none [of example_feed "''Natar''"]
  by (simp add: example_feed_risk_map get_risk_def)

section \<open>The status classifier\<close>

lemma foldl_update_lookup:
  "foldl (\<lambda>statuses k. statuses(k \<mapsto> f k)) m ks kec
   = (if kec \<in> set ks then Some (f kec) else m kec)"
  by (induction ks arbitrary: m) auto

lemma compute_kecamatan_status_lookup:
  "compute_kecamatan_status snap kec =
     (if kec \<in> set (map fst KECAMATAN_DB) then Some (kecamatan_entry snap kec) else None)"
  unfolding compute_kecamatan_status_def by (simp only: foldl_update_lookup)




lemma Kedaton_in_db: "''Kedaton'' \<in> set (map fst KECAMATAN_DB)"
  by (simp add: KECAMATAN_DB_def)

lemma py_round_of_int: "py_round (of_int k) n = of_int k"
proof -
  have "of_int k * 10 ^ n = (of_int (k * 10 ^ n) :: real)" by simp
  then have f: "\<lfloor>of_int k * 10 ^ n :: real\<rfloor> = k * 10 ^ n"
    by (simp only: floor_of_int)
  show ?thesis
    unfolding py_round_def Let_def f by simp
qed

lemma py_round_100: "py_round 100 n = 100"
  using py_round_of_int [of 100 n] by simp




text \<open>
  Claim C8. A region of \<^verbatim>\<open>KECAMATAN_DB\<close> that is absent from the social scores gets the
  social score 100, one absent from the infra scores the infra score 100, one absent
  from the risk map the risk \<^verbatim>\<open>NONE\<close>; a region absent from all three is \<^verbatim>\<open>NORMAL\<close> with
  the combined score 100.
\<close>

theorem absent_region_defaults:
  assumes "kec \<in> set (map fst KECAMATAN_DB)"
  shows "\<exists>entry. compute_kecamatan_status snap kec = Some entry
     \<and> (social_scores snap kec = None \<longrightarrow> social_score entry = 100)
     \<and> (infra_scores snap kec = None \<longrightarrow> infra_score entry = 100)
     \<and> (risk_map (disaster_data snap) kec = None \<longrightarrow> disaster_risk entry = ''NONE'')
     \<and> (social_scores snap kec = None \<and> infra_scores snap kec = None
          \<and> risk_map (disaster_data snap) kec = None
          \<longrightarrow> status entry = ''NORMAL'' \<and> combined_score entry = 100)"
proof -
  have "compute_kecamatan_status snap kec = Some (kecamatan_entry snap kec)"
    using assms by (simp only: compute_kecamatan_status_lookup if_True)
  moreover have "social_scores snap kec = None \<longrightarrow> social_score (kecamatan_entry snap kec) = 100"
    by (simp add: kecamatan_entry_def Let_def get_score_def)
  moreover have "infra_scores snap kec = None \<longrightarrow> infra_score (kecamatan_entry snap kec) = 100"
    by (simp add: kecamatan_entry_def Let_def get_score_def)
  moreover have "risk_map (disaster_data snap) kec = None
      \<longrightarrow> disaster_risk (kecamatan_entry snap kec) = ''NONE''"
    by (simp add: kecamatan_entry_def Let_def get_risk_def)
  moreover have "social_scores snap kec = None \<and> infra_scores snap kec = None
          \<and> risk_map (disaster_data snap) kec = None
          \<longrightarrow> status (kecamatan_entry snap kec) = ''NORMAL''
              \<and> combined_score (kecamatan_entry snap kec) = 100"
    by (simp add: kecamatan_entry_def Let_def get_score_def get_risk_def combined_of_def
        domIff py_round_100)
  ultimately show ?thesis by simp
qed

theorem absent_region_defaults_witness:
  "''Kedaton'' \<in> set (map fst KECAMATAN_DB)
   \<and> map_option status (compute_kecamatan_status empty_data ''Kedaton'') = Some ''NORMAL''
   \<and> map_option combined_score (compute_kecamatan_status empty_data ''Kedaton'') = Some 100
   \<and> map_option social_score (compute_kecamatan_status empty_data ''Kedaton'') = Some 100
   \<and> map_option infra_score (compute_kecamatan_status empty_data ''Kedaton'') = Some 100
   \<and> map_option disaster_risk (compute_kecamatan_status empty_data ''Kedaton'') = Some ''NONE''"
  using absent_region_defaults [OF Kedaton_in_db, of empty_data] Kedaton_in_db
  by (auto simp: empty_data_def)

section \<open>The social and infrastructure scores\<close>











section \<open>The data store\<close>

lemma and_then_Inl [simp]: "and_then (Inl e) k = Inl e"
  by (simp add: and_then_def)

lemma and_then_Inr [simp]: "and_then (Inr v) k = k v"
  by (simp add: and_then_def)

lemma and_then_eq_Inl:
  "and_then r k = Inl e \<longleftrightarrow> r = Inl e \<or> (\<exists>v. r = Inr v \<and> k v = Inl e)"
  by (cases r) simp_all

lemma and_then_eq_Inr:
  "and_then r k = Inr w \<longleftrightarrow> (\<exists>v. r = Inr v \<and> k v = Inr w)"
  by (cases r) simp_all

lemma fetch_finish_failure:
  "build_new_data p = Inl e \<Longrightarrow>
   fetch_finish p s = Inr (s\<lparr>last_error := Some (str e), is_fetching := False\<rparr>)"
  by (cases e) (simp add: fetch_finish_def try_block_def)


lemma do_fetch_failure:
  "build_new_data p = Inl e \<Longrightarrow>
   do_fetch p s = Inr (s\<lparr>last_error := Some (str e), is_fetching := False\<rparr>)"
  by (simp add: do_fetch_def fetch_finish_failure fetch_start_def)



lemma build_social_down: "build_new_data social_down = Inl (Exception ''timed out'')"
  by (simp add: build_new_data_def social_down_def healthy_producers_def)

lemma build_infra_down: "build_new_data infra_down = Inl (Exception ''No such file'')"
  by (simp add: build_new_data_def infra_down_def healthy_producers_def)

text \<open>
  Claim C2. When a call of the \<^verbatim>\<open>try\<close> block of a fetch cycle raises (a producer call or a
  call that derives a value for \<^verbatim>\<open>new_data\<close>), \<^verbatim>\<open>_do_fetch\<close> returns without raising: the
  snapshot, \<^verbatim>\<open>last_refresh\<close>, \<^verbatim>\<open>next_refresh\<close> and \<^verbatim>\<open>fetch_count\<close> are those of before the cycle,
  \<^verbatim>\<open>last_error\<close> is the text of the exception, and \<^verbatim>\<open>is_fetching\<close> is false again.
\<close>

theorem failed_cycle_keeps_snapshot:
  assumes "build_new_data p = Inl e"
  shows "\<exists>s'. do_fetch p s = Inr s'
     \<and> data s' = data s \<and> last_refresh s' = last_refresh s
     \<and> next_refresh s' = next_refresh s \<and> fetch_count s' = fetch_count s
     \<and> last_error s' = Some (str e) \<and> is_fetching s' = False"
  using do_fetch_failure [OF assms, of s] by simp

theorem failed_cycle_keeps_snapshot_witness:
  "build_new_data social_down = Inl (Exception ''timed out'')
   \<and> do_fetch social_down (init_attributes 300)
       = Inr \<lparr>refresh_interval = 300, data = None, stop_event = False, is_fetching = False,
              last_refresh = None, next_refresh = None, fetch_count = 0,
              last_error = Some ''timed out''\<rparr>"
proof -
  have "do_fetch social_down (init_attributes 300)
       = Inr \<lparr>refresh_interval = 300, data = None, stop_event = False, is_fetching = False,
              last_refresh = None, next_refresh = None, fetch_count = 0,
              last_error = Some ''timed out''\<rparr>"
    using failed_cycle_keeps_snapshot [OF build_social_down, of "init_attributes 300"]
    by (simp add: do_fetch_failure [OF build_social_down] init_attributes_def)
  then show ?thesis using build_social_down by simp
qed


lemma infra_failure_build:
  assumes "social_outcome p = Inr ssc" and "call_get_combined_disaster_risk p = Inr dd"
    and "infra_outcome p = Inl e"
  shows "build_new_data p = Inl e"
proof -
  from assms(1) obtain signals sagg where
    a: "call_fetch_social_signals p = Inr signals"
    and b: "call_aggregate_by_kecamatan p signals = Inr sagg"
    and c: "call_get_social_score p sagg = Inr ssc"
    unfolding social_outcome_def and_then_eq_Inr by auto
  show ?thesis
  proof (cases "call_probe_anchors p")
    case (Inl x)
    with assms(3) have "x = e" by (simp add: infra_outcome_def)
    with Inl show ?thesis by (simp add: build_new_data_def a b c assms(2))
  next
    case pr: (Inr presults)
    show ?thesis
    proof (cases "call_aggregate_probe_by_kecamatan p presults")
      case (Inl x)
      with assms(3) pr have "x = e" by (simp add: infra_outcome_def)
      with Inl pr show ?thesis by (simp add: build_new_data_def a b c assms(2))
    next
      case (Inr pagg)
      with assms(3) pr have "call_get_infra_score p pagg = Inl e"
        by (simp add: infra_outcome_def)
      with Inr pr show ?thesis by (simp add: build_new_data_def a b c assms(2))
    qed
  qed
qed

text \<open>
  Claim C3, as amended. When a call of the infrastructure producer raises in a cycle in
  which the social and the disaster calls return, the cycle publishes nothing: the
  snapshot, \<^verbatim>\<open>last_refresh\<close>, \<^verbatim>\<open>next_refresh\<close> and \<^verbatim>\<open>fetch_count\<close> stay those of before the cycle
  (a reader keeps the snapshot of the last cycle that succeeded, if there is one), and
  \<^verbatim>\<open>last_error\<close> is set to the text of the exception.
\<close>

theorem infra_failure_aborts_cycle:
  assumes "social_outcome p = Inr ssc" and "call_get_combined_disaster_risk p = Inr dd"
    and "infra_outcome p = Inl e"
  shows "\<exists>s'. do_fetch p s = Inr s'
     \<and> data s' = data s \<and> last_refresh s' = last_refresh s
     \<and> next_refresh s' = next_refresh s \<and> fetch_count s' = fetch_count s
     \<and> last_error s' = Some (str e) \<and> last_error s' \<noteq> None"
  using do_fetch_failure [OF infra_failure_build [OF assms], of s] by simp

lemma infra_down_outcomes:
  "social_outcome infra_down = Inr [''Kedaton'' \<mapsto> 35]"
  "call_get_combined_disaster_risk infra_down = Inr (get_combined_disaster_risk example_feed)"
  "infra_outcome infra_down = Inl (Exception ''No such file'')"
  by (simp_all add: social_outcome_def infra_outcome_def infra_down_def healthy_producers_def)

theorem infra_failure_aborts_cycle_witness:
  "infra_outcome infra_down = Inl (Exception ''No such file'')
   \<and> do_fetch infra_down (init_attributes 300)
       = Inr \<lparr>refresh_interval = 300, data = None, stop_event = False, is_fetching = False,
              last_refresh = None, next_refresh = None, fetch_count = 0,
              last_error = Some ''No such file''\<rparr>"
proof -
  have "do_fetch infra_down (init_attributes 300)
       = Inr \<lparr>refresh_interval = 300, data = None, stop_event = False, is_fetching = False,
              last_refresh = None, next_refresh = None, fetch_count = 0,
              last_error = Some ''No such file''\<rparr>"
    using infra_failure_aborts_cycle [OF infra_down_outcomes, of "init_attributes 300"]
    by (simp add: do_fetch_failure [OF build_infra_down] init_attributes_def)
  then show ?thesis using infra_down_outcomes(3) by simp
qed

text \<open>
  Claim C3 as stated fails: in the first fetch of a new store, with \<^verbatim>\<open>probe_anchors()\<close>
  raising and the social and disaster calls returning, the cycle publishes no snapshot
  at all, and \<^verbatim>\<open>get_data\<close> returns \<^verbatim>\<open>None\<close> after it. \<^verbatim>\<open>_do_fetch\<close> has a single \<^verbatim>\<open>try\<close> block:
  once a call raises, the assignment of \<^verbatim>\<open>self._data\<close> is never reached.
\<close>

theorem infra_failure_publishes_nothing:
  "\<not> isl (social_outcome infra_down)
   \<and> \<not> isl (call_get_combined_disaster_risk infra_down)
   \<and> infra_outcome infra_down = Inl (Exception ''No such file'')
   \<and> do_fetch infra_down (init_attributes 300)
       = Inr \<lparr>refresh_interval = 300, data = None, stop_event = False, is_fetching = False,
              last_refresh = None, next_refresh = None, fetch_count = 0,
              last_error = Some ''No such file''\<rparr>
   \<and> fst (get_data \<lparr>refresh_interval = 300, data = None, stop_event = False,
              is_fetching = False, last_refresh = None, next_refresh = None,
              fetch_count = 0, last_error = Some ''No such file''\<rparr>) = (None :: nat snapshot option)"
  by (simp add: infra_down_outcomes do_fetch_failure [OF build_infra_down] init_attributes_def
      get_data_def)













text \<open>
  Claim C6. With \<^verbatim>\<open>is_fetching\<close> true, \<^verbatim>\<open>force_refresh\<close> returns without raising; it logs a
  warning, starts no thread and leaves the store as it is.
\<close>

theorem force_refresh_while_fetching:
  assumes "is_fetching s"
  shows "force_refresh s
           = Inr ([LogWarning ''DataStore: Fetch already in progress, skipping force refresh.''], s)
     \<and> step s ForceRefresh = s"
  using assms by (simp add: force_refresh_def)

theorem force_refresh_while_fetching_witness:
  "is_fetching (fetch_start (init_attributes 300 :: nat store))
   \<and> force_refresh (fetch_start (init_attributes 300 :: nat store))
       = Inr ([LogWarning ''DataStore: Fetch already in progress, skipping force refresh.''],
              \<lparr>refresh_interval = 300, data = None, stop_event = False, is_fetching = True,
               last_refresh = None, next_refresh = None, fetch_count = 0, last_error = None\<rparr>)"
proof -
  have f: "is_fetching (fetch_start (init_attributes 300 :: nat store))"
    by (simp add: fetch_start_def)
  from force_refresh_while_fetching [OF f] f show ?thesis
    by (simp add: fetch_start_def init_attributes_def)
qed

text \<open>
  Claim C7. \<^verbatim>\<open>set_refresh_interval(seconds)\<close> sets the interval to \<open>max 60 seconds\<close>: at
  least 60, equal to \<open>seconds\<close> from 60 on, and 60 for the argument 10.
\<close>

theorem set_refresh_interval_floor:
  "refresh_interval (set_refresh_interval s seconds) = max 60 seconds
   \<and> 60 \<le> refresh_interval (set_refresh_interval s seconds)
   \<and> (60 \<le> seconds \<longrightarrow> refresh_interval (set_refresh_interval s seconds) = seconds)
   \<and> refresh_interval (set_refresh_interval s 10) = 60"
  by (simp add: set_refresh_interval_def)

theorem set_refresh_interval_floor_witness:
  "refresh_interval (set_refresh_interval (init_attributes 300 :: nat store) 120) = 120
   \<and> refresh_interval (set_refresh_interval (init_attributes 300 :: nat store) 10) = 60
   \<and> refresh_interval (set_refresh_interval (init_attributes 300 :: nat store) (- 5)) = 60"
  using set_refresh_interval_floor [of "init_attributes 300 :: nat store" 120]
    set_refresh_interval_floor [of "init_attributes 300 :: nat store" "- 5"]
  by simp

end
